theory Spec2Isabelle
  imports Main
begin

text \<open>
  A model of the synchronisation engine of youtrack-calendar-sync: the binding store
  (sync/db.go), the reconciler \<^verbatim>\<open>Synchronizer\<close> of package sync with its four passes,
  and the two adapter operations the reconciler's calls end in
  (\<^verbatim>\<open>youtrack.Client.UpdateIssue\<close>, \<^verbatim>\<open>googlecalendar.Client.CreateEvent\<close>).
  The definitions come first, the properties after them.
\<close>

section \<open>Instants\<close>

text \<open>
  A Go \<^verbatim>\<open>time.Time\<close> is modelled by the instant it denotes: an integer count of
  nanoseconds since the Unix epoch. The zero value \<^verbatim>\<open>time.Time{}\<close> is
  January 1, year 1, 00:00:00 UTC, which lies 62135596800 seconds before the epoch.
  A \<^verbatim>\<open>time.Duration\<close> is an integer count of nanoseconds.
\<close>

type_synonym time = int

definition zero_time :: time where
  "zero_time = - 62135596800000000000"

definition IsZero :: "time \<Rightarrow> bool" where
  "IsZero t = (t = zero_time)"

definition After :: "time \<Rightarrow> time \<Rightarrow> bool" where
  "After t u = (u < t)"

definition Hour :: int where
  "Hour = 3600000000000"

definition Add :: "time \<Rightarrow> int \<Rightarrow> time" where
  "Add t d = t + d"

definition UnixMilli :: "int \<Rightarrow> time" where
  "UnixMilli msec = msec * 1000000"

definition ToUnixMilli :: "time \<Rightarrow> int" where
  "ToUnixMilli t = t div 1000000"

text \<open>
  \<^verbatim>\<open>t.Format("2006-01-02")\<close> prints the civil date of \<open>t\<close> in the location of
  \<open>t\<close>. The location is taken as a fixed offset \<open>off\<close> (in nanoseconds east of UTC),
  and the printed date is represented by its day number (days since 1970-01-01), of
  which the printed text is an injective function. \<^verbatim>\<open>t.AddDate(0, 0, 1)\<close> keeps
  the wall clock reading and moves to the next civil day; with a fixed offset that is
  24 hours later.
\<close>

definition Format_date :: "int \<Rightarrow> time \<Rightarrow> int" where
  "Format_date off t = (t + off) div (24 * Hour)"

definition AddDate_days :: "time \<Rightarrow> int \<Rightarrow> time" where
  "AddDate_days t n = t + n * (24 * Hour)"

definition time_of_day :: "int \<Rightarrow> time \<Rightarrow> int" where
  "time_of_day off t = (t + off) mod (24 * Hour)"

section \<open>Errors\<close>

text \<open>
  \<open>ErrNotFound\<close> is the sentinel of package youtrack. \<open>ErrStore\<close> is a failure of the
  database engine (I/O, lock, closed handle), \<open>ErrConstraint\<close> a violated UNIQUE index,
  \<open>ErrScanNull\<close> the error of \<^verbatim>\<open>Scan\<close> when a NULL column is read into a Go
  \<^verbatim>\<open>string\<close> or \<^verbatim>\<open>time.Time\<close>. \<open>ErrTransport\<close> and \<open>ErrStatus\<close> are
  failures of a remote call. \<open>Wrapped m e\<close> is \<^verbatim>\<open>fmt.Errorf(m + ": %w", e)\<close>.
\<close>

datatype error =
    ErrNotFound
  | ErrStore
  | ErrConstraint
  | ErrScanNull
  | ErrTransport
  | ErrRequest
  | ErrStatus nat
  | Wrapped string error

section \<open>The data of the three packages\<close>

text \<open>\<^verbatim>\<open>googlecalendar.Event\<close> (googlecalendar/client.go).\<close>

record Event =
  Event_ID :: string
  Event_Summary :: string
  Event_HTMLLink :: string
  Event_Start :: time
  Event_End :: time
  Event_Status :: string
  Event_Organizer :: string
  Event_Recurrence :: "string list"
  Event_RecurringEventID :: string
  Event_Updated :: time

text \<open>
  \<^verbatim>\<open>calendar.Event\<close> of the Google API library, as far as the reconciler reads
  the value returned by a create or update: its id and its RFC 3339 update stamp.
\<close>

record calendar_Event =
  calendar_Event_Id :: string
  calendar_Event_Updated :: string

text \<open>
  \<^verbatim>\<open>youtrack.CustomField\<close> and \<^verbatim>\<open>youtrack.Issue\<close> (youtrack/models.go). The
  \<^verbatim>\<open>Value\<close> of a custom field is an \<^verbatim>\<open>interface{}\<close> decoded from JSON: a JSON
  number arrives as a \<^verbatim>\<open>float64\<close>, anything else as another dynamic type.
  \<open>VNumber n\<close> is a number whose conversion \<^verbatim>\<open>int64(val)\<close> is \<open>n\<close>.
\<close>

datatype cf_value = VNumber int | VString string | VNull

record CustomField =
  CustomField_Type :: string
  CustomField_ID :: string
  CustomField_Name :: string
  CustomField_Value :: cf_value

record Issue =
  Issue_ID :: string
  Issue_IDReadable :: string
  Issue_Summary :: string
  Issue_Description :: string
  Issue_Updated :: int
  Issue_CustomFields :: "CustomField list"

text \<open>
  \<^verbatim>\<open>sync.SyncItem\<close> (sync/db.go). An \<^verbatim>\<open>sql.NullString\<close> or
  \<^verbatim>\<open>sql.NullTime\<close> is an option: \<open>None\<close> is \<^verbatim>\<open>Valid: false\<close> (SQL NULL).
  The reconciler reads \<^verbatim>\<open>.String\<close> and \<^verbatim>\<open>.Time\<close> without testing
  \<^verbatim>\<open>Valid\<close>; on a NULL these are the empty string and the zero time.
\<close>

record SyncItem =
  ID :: int
  GCalID :: "string option"
  YTID :: "string option"
  GCalUpdatedAt :: "time option"
  YTUpdatedAt :: "time option"

definition NullString_String :: "string option \<Rightarrow> string" where
  "NullString_String s = (case s of None \<Rightarrow> [] | Some x \<Rightarrow> x)"

definition NullTime_Time :: "time option \<Rightarrow> time" where
  "NullTime_Time t = (case t of None \<Rightarrow> zero_time | Some x \<Rightarrow> x)"

section \<open>The world: store, clock, remote services\<close>

text \<open>
  The single row (id = 1) of table \<^verbatim>\<open>last_sync\<close>; both columns are nullable.
\<close>

record last_sync_row =
  gcal_sync_token :: "string option"
  yt_last_sync :: "time option"

text \<open>The writes the reconciler issues to the two remote services, as they are issued.\<close>

datatype remote_call =
    CallCreateIssue string string string "time option"
  | CallUpdateIssue string string string "time option"
  | CallCreateEvent string string string time time
  | CallUpdateEvent string string string string time time
  | CallDeleteEvent string string

text \<open>
  The state a run threads through: the two tables of the SQLite file, the
  AUTOINCREMENT sequence of \<^verbatim>\<open>sync_items\<close>, the number of external operations
  performed so far (\<open>ticks\<close>), the remote writes issued so far and the error lines
  written to the log so far.
\<close>

record world =
  sync_items :: "SyncItem list"
  rowid_seq :: int
  last_sync :: "last_sync_row option"
  ticks :: nat
  calls :: "remote_call list"
  logs :: "string list"

text \<open>
  What the reconciler does not control. The two clients are Go interfaces
  (\<^verbatim>\<open>GCalClient\<close>, \<^verbatim>\<open>YTClient\<close>): any implementation may stand behind them, so
  each method is an arbitrary function of its arguments and of the moment of the call
  (the tick). \<open>db_fault n\<close> says that the database statement executed at tick \<open>n\<close>
  fails in the engine; \<open>now n\<close> is what \<^verbatim>\<open>time.Now()\<close> reads at tick \<open>n\<close>;
  \<open>time_Parse\<close> is \<^verbatim>\<open>time.Parse(time.RFC3339, _)\<close>, \<open>None\<close> when it fails.
  A method returns either an error or a result; a client that returns a nil result
  together with a nil error, which the reconciler would dereference, is not modelled.
\<close>

record env =
  now :: "nat \<Rightarrow> time"
  db_fault :: "nat \<Rightarrow> bool"
  time_Parse :: "string \<Rightarrow> time option"
  gcal_FetchEvents :: "nat \<Rightarrow> string \<Rightarrow> string \<Rightarrow> error + (Event list \<times> string)"
  gcal_CreateEvent :: "nat \<Rightarrow> string \<Rightarrow> string \<Rightarrow> string \<Rightarrow> time \<Rightarrow> time \<Rightarrow> error + calendar_Event"
  gcal_UpdateEvent :: "nat \<Rightarrow> string \<Rightarrow> string \<Rightarrow> string \<Rightarrow> string \<Rightarrow> time \<Rightarrow> time \<Rightarrow> error + calendar_Event"
  gcal_DeleteEvent :: "nat \<Rightarrow> string \<Rightarrow> string \<Rightarrow> error option"
  yt_GetUpdatedIssues :: "nat \<Rightarrow> string \<Rightarrow> time \<Rightarrow> error + Issue list"
  yt_CreateIssue :: "nat \<Rightarrow> string \<Rightarrow> string \<Rightarrow> string \<Rightarrow> time option \<Rightarrow> error + Issue"
  yt_UpdateIssue :: "nat \<Rightarrow> string \<Rightarrow> string \<Rightarrow> string \<Rightarrow> time option \<Rightarrow> error option"
  yt_GetDeletedIssueIDs :: "nat \<Rightarrow> string \<Rightarrow> time \<Rightarrow> error + string list"
  yt_GetBaseURL :: string

definition tick :: "world \<Rightarrow> world" where
  "tick w = w\<lparr>ticks := Suc (ticks w)\<rparr>"

definition log_Printf :: "string \<Rightarrow> world \<Rightarrow> world" where
  "log_Printf m w = w\<lparr>logs := logs w @ [m]\<rparr>"

definition issue_call :: "remote_call \<Rightarrow> world \<Rightarrow> world" where
  "issue_call c w = w\<lparr>calls := calls w @ [c]\<rparr>"

definition time_Now :: "env \<Rightarrow> world \<Rightarrow> time \<times> world" where
  "time_Now E w = (now E (ticks w), tick w)"

section \<open>The binding store (sync/db.go)\<close>

text \<open>
  \<^verbatim>\<open>SELECT ... FROM sync_items WHERE gcal_id = ?\<close> read with \<^verbatim>\<open>QueryRow\<close>: the
  first matching row, or \<^verbatim>\<open>(nil, nil)\<close> when \<^verbatim>\<open>sql.ErrNoRows\<close>.
\<close>

definition GetSyncItemByGCalID :: "env \<Rightarrow> string \<Rightarrow> world \<Rightarrow> (error + SyncItem option) \<times> world" where
  "GetSyncItemByGCalID E gcalID w =
     (if db_fault E (ticks w) then (Inl ErrStore, tick w)
      else (Inr (find (\<lambda>r. GCalID r = Some gcalID) (sync_items w)), tick w))"

definition GetSyncItemByYTID :: "env \<Rightarrow> string \<Rightarrow> world \<Rightarrow> (error + SyncItem option) \<times> world" where
  "GetSyncItemByYTID E ytID w =
     (if db_fault E (ticks w) then (Inl ErrStore, tick w)
      else (Inr (find (\<lambda>r. YTID r = Some ytID) (sync_items w)), tick w))"

definition GetAllSyncItems :: "env \<Rightarrow> world \<Rightarrow> (error + SyncItem list) \<times> world" where
  "GetAllSyncItems E w =
     (if db_fault E (ticks w) then (Inl ErrStore, tick w)
      else (Inr (sync_items w), tick w))"

text \<open>
  The UNIQUE indexes on \<^verbatim>\<open>gcal_id\<close> and \<^verbatim>\<open>yt_id\<close>: a row \<open>r\<close> stands in the way
  of the values of \<open>item\<close> when it carries the same non-NULL id on either side (NULLs
  never collide).
\<close>

definition collides :: "SyncItem \<Rightarrow> SyncItem \<Rightarrow> bool" where
  "collides item r =
     ((GCalID item \<noteq> None \<and> GCalID r = GCalID item) \<or>
      (YTID item \<noteq> None \<and> YTID r = YTID item))"

text \<open>
  \<^verbatim>\<open>id INTEGER PRIMARY KEY AUTOINCREMENT\<close>: the new row id is one more than the
  largest row id the table has ever held.
\<close>

definition next_rowid :: "world \<Rightarrow> int" where
  "next_rowid w = fold max (map ID (sync_items w)) (rowid_seq w) + 1"

definition CreateSyncItem :: "env \<Rightarrow> SyncItem \<Rightarrow> world \<Rightarrow> (error + int) \<times> world" where
  "CreateSyncItem E item w =
     (if db_fault E (ticks w) then (Inl ErrStore, tick w)
      else if list_ex (collides item) (sync_items w) then (Inl ErrConstraint, tick w)
      else (Inr (next_rowid w),
            tick (w\<lparr>sync_items := sync_items w @ [item\<lparr>ID := next_rowid w\<rparr>],
                    rowid_seq := next_rowid w\<rparr>)))"

text \<open>
  \<^verbatim>\<open>UPDATE sync_items SET gcal_id = ?, yt_id = ?, gcal_updated_at = ?,
  yt_updated_at = ? WHERE id = ?\<close>: all four columns are written from the item; the
  number of rows affected is not inspected, so an id that matches no row is not an
  error.
\<close>

definition UpdateSyncItem :: "env \<Rightarrow> SyncItem \<Rightarrow> world \<Rightarrow> error option \<times> world" where
  "UpdateSyncItem E item w =
     (if db_fault E (ticks w) then (Some ErrStore, tick w)
      else if list_ex (\<lambda>r. ID r = ID item) (sync_items w) \<and>
              list_ex (\<lambda>r. ID r \<noteq> ID item \<and> collides item r) (sync_items w)
           then (Some ErrConstraint, tick w)
      else (None,
            tick (w\<lparr>sync_items := map (\<lambda>r. if ID r = ID item then item else r) (sync_items w)\<rparr>)))"

definition DeleteSyncItem :: "env \<Rightarrow> int \<Rightarrow> world \<Rightarrow> error option \<times> world" where
  "DeleteSyncItem E i w =
     (if db_fault E (ticks w) then (Some ErrStore, tick w)
      else (None, tick (w\<lparr>sync_items := filter (\<lambda>r. ID r \<noteq> i) (sync_items w)\<rparr>)))"

text \<open>
  \<^verbatim>\<open>SELECT gcal_sync_token FROM last_sync WHERE id = 1\<close> scanned into a Go
  \<^verbatim>\<open>string\<close>: no row is the empty token, a NULL column is a scan error.
\<close>

definition GetGCalSyncToken :: "env \<Rightarrow> world \<Rightarrow> (error + string) \<times> world" where
  "GetGCalSyncToken E w =
     (if db_fault E (ticks w) then (Inl ErrStore, tick w)
      else (case last_sync w of
              None \<Rightarrow> (Inr [], tick w)
            | Some row \<Rightarrow>
                (case gcal_sync_token row of
                   None \<Rightarrow> (Inl ErrScanNull, tick w)
                 | Some token \<Rightarrow> (Inr token, tick w))))"

text \<open>
  \<^verbatim>\<open>INSERT OR REPLACE INTO last_sync (id, gcal_sync_token) VALUES (1, ?)\<close>: a row
  with id 1 is deleted and the new row inserted; the column \<^verbatim>\<open>yt_last_sync\<close>, not
  named in the statement, takes its default, NULL.
\<close>

definition SetGCalSyncToken :: "env \<Rightarrow> string \<Rightarrow> world \<Rightarrow> error option \<times> world" where
  "SetGCalSyncToken E token w =
     (if db_fault E (ticks w) then (Some ErrStore, tick w)
      else (None,
            tick (w\<lparr>last_sync := Some \<lparr>gcal_sync_token = Some token, yt_last_sync = None\<rparr>\<rparr>)))"

definition GetYTLastSync :: "env \<Rightarrow> world \<Rightarrow> (error + time) \<times> world" where
  "GetYTLastSync E w =
     (if db_fault E (ticks w) then (Inl ErrStore, tick w)
      else (case last_sync w of
              None \<Rightarrow> (Inr zero_time, tick w)
            | Some row \<Rightarrow>
                (case yt_last_sync row of
                   None \<Rightarrow> (Inl ErrScanNull, tick w)
                 | Some t \<Rightarrow> (Inr t, tick w))))"

text \<open>
  \<^verbatim>\<open>UPDATE last_sync SET yt_last_sync = ? WHERE id = 1\<close>, and when no row was
  affected \<^verbatim>\<open>INSERT INTO last_sync (id, yt_last_sync) VALUES (1, ?)\<close>, a second
  statement, which leaves \<^verbatim>\<open>gcal_sync_token\<close> NULL.
\<close>

definition SetYTLastSync :: "env \<Rightarrow> time \<Rightarrow> world \<Rightarrow> error option \<times> world" where
  "SetYTLastSync E t w =
     (if db_fault E (ticks w) then (Some ErrStore, tick w)
      else (case last_sync w of
              Some row \<Rightarrow> (None, tick (w\<lparr>last_sync := Some (row\<lparr>yt_last_sync := Some t\<rparr>)\<rparr>))
            | None \<Rightarrow>
                (if db_fault E (Suc (ticks w)) then (Some ErrStore, tick (tick w))
                 else (None,
                       tick (tick (w\<lparr>last_sync :=
                          Some \<lparr>gcal_sync_token = None, yt_last_sync = Some t\<rparr>\<rparr>))))))"

section \<open>The reconciler (package sync)\<close>

text \<open>
  The fields of \<^verbatim>\<open>Synchronizer\<close> that are plain data; its two clients and its
  database handle are the environment and the world.
\<close>

record Synchronizer =
  YouTrackProjectID :: string
  YouTrackQueryProjectID :: string
  CalendarID :: string

subsection \<open>Calls through the two client interfaces\<close>

text \<open>
  A call takes one tick; a call that writes to the remote side is recorded with its
  arguments, whatever its outcome.
\<close>

definition FetchEvents :: "env \<Rightarrow> string \<Rightarrow> string \<Rightarrow> world \<Rightarrow> (error + (Event list \<times> string)) \<times> world" where
  "FetchEvents E calendarID syncToken w = (gcal_FetchEvents E (ticks w) calendarID syncToken, tick w)"

definition GetUpdatedIssues :: "env \<Rightarrow> string \<Rightarrow> time \<Rightarrow> world \<Rightarrow> (error + Issue list) \<times> world" where
  "GetUpdatedIssues E projectID since w = (yt_GetUpdatedIssues E (ticks w) projectID since, tick w)"

definition GetDeletedIssueIDs :: "env \<Rightarrow> string \<Rightarrow> time \<Rightarrow> world \<Rightarrow> (error + string list) \<times> world" where
  "GetDeletedIssueIDs E projectID since w = (yt_GetDeletedIssueIDs E (ticks w) projectID since, tick w)"

definition CreateIssue :: "env \<Rightarrow> string \<Rightarrow> string \<Rightarrow> string \<Rightarrow> time option \<Rightarrow> world \<Rightarrow> (error + Issue) \<times> world" where
  "CreateIssue E projectID summary description dueDate w =
     (yt_CreateIssue E (ticks w) projectID summary description dueDate,
      tick (issue_call (CallCreateIssue projectID summary description dueDate) w))"

definition UpdateIssue :: "env \<Rightarrow> string \<Rightarrow> string \<Rightarrow> string \<Rightarrow> time option \<Rightarrow> world \<Rightarrow> error option \<times> world" where
  "UpdateIssue E issueID summary description dueDate w =
     (yt_UpdateIssue E (ticks w) issueID summary description dueDate,
      tick (issue_call (CallUpdateIssue issueID summary description dueDate) w))"

definition CreateEvent :: "env \<Rightarrow> string \<Rightarrow> string \<Rightarrow> string \<Rightarrow> time \<Rightarrow> time \<Rightarrow> world \<Rightarrow> (error + calendar_Event) \<times> world" where
  "CreateEvent E calendarID summary description start end' w =
     (gcal_CreateEvent E (ticks w) calendarID summary description start end',
      tick (issue_call (CallCreateEvent calendarID summary description start end') w))"

definition UpdateEvent :: "env \<Rightarrow> string \<Rightarrow> string \<Rightarrow> string \<Rightarrow> string \<Rightarrow> time \<Rightarrow> time \<Rightarrow> world \<Rightarrow> (error + calendar_Event) \<times> world" where
  "UpdateEvent E calendarID eventID summary description start end' w =
     (gcal_UpdateEvent E (ticks w) calendarID eventID summary description start end',
      tick (issue_call (CallUpdateEvent calendarID eventID summary description start end') w))"

definition DeleteEvent :: "env \<Rightarrow> string \<Rightarrow> string \<Rightarrow> world \<Rightarrow> error option \<times> world" where
  "DeleteEvent E calendarID eventID w =
     (gcal_DeleteEvent E (ticks w) calendarID eventID,
      tick (issue_call (CallDeleteEvent calendarID eventID) w))"

subsection \<open>processGCalEvents\<close>

text \<open>
  The body of the loop of \<^verbatim>\<open>processGCalEvents\<close> for one event; every
  \<^verbatim>\<open>continue\<close> is a branch that returns the world reached so far. Of the log only
  the error lines are kept (by the constant part of their format string).
\<close>

definition processGCalEvent :: "env \<Rightarrow> Synchronizer \<Rightarrow> Event \<Rightarrow> world \<Rightarrow> world" where
  "processGCalEvent E S event w =
     (if Event_Status event = ''cancelled'' then w
      else
        (case GetSyncItemByGCalID E (Event_ID event) w of
           (Inl err, w1) \<Rightarrow> log_Printf ''Error getting sync item for GCal event'' w1
         | (Inr None, w1) \<Rightarrow>
             (case CreateIssue E (YouTrackProjectID S) (Event_Summary event) (Event_HTMLLink event)
                     (Some (Event_Start event)) w1 of
                (Inl err, w2) \<Rightarrow> log_Printf ''Error creating YouTrack task'' w2
              | (Inr issue, w2) \<Rightarrow>
                  (case CreateSyncItem E
                          \<lparr>ID = 0,
                           GCalID = Some (Event_ID event),
                           YTID = Some (Issue_ID issue),
                           GCalUpdatedAt = Some (Event_Updated event),
                           YTUpdatedAt = Some (UnixMilli (Issue_Updated issue))\<rparr> w2 of
                     (Inl err, w3) \<Rightarrow> log_Printf ''Error creating sync item'' w3
                   | (Inr newID, w3) \<Rightarrow> w3))
         | (Inr (Some syncItem), w1) \<Rightarrow>
             (if After (Event_Updated event) (NullTime_Time (GCalUpdatedAt syncItem)) then
                (case UpdateIssue E (NullString_String (YTID syncItem)) (Event_Summary event)
                        (Event_HTMLLink event) (Some (Event_Start event)) w1 of
                   (err, w2) \<Rightarrow>
                     (case UpdateSyncItem E (syncItem\<lparr>GCalUpdatedAt := Some (Event_Updated event)\<rparr>)
                             (case err of
                                Some e \<Rightarrow> log_Printf ''Error updating YouTrack task'' w2
                              | None \<Rightarrow> w2) of
                        (Some e, w3) \<Rightarrow> log_Printf ''Error updating sync item'' w3
                      | (None, w3) \<Rightarrow> w3))
              else w1)))"

definition processGCalEvents :: "env \<Rightarrow> Synchronizer \<Rightarrow> Event list \<Rightarrow> world \<Rightarrow> error option \<times> world" where
  "processGCalEvents E S events w = (None, foldl (\<lambda>w' event. processGCalEvent E S event w') w events)"

subsection \<open>processYTissues\<close>

text \<open>
  The inner loop over the custom fields: the last field named \<^verbatim>\<open>Due Date\<close> that
  holds a number decides; \<open>d\<close> is the value of \<^verbatim>\<open>dueDate\<close> so far.
\<close>

fun scan_dueDate :: "CustomField list \<Rightarrow> time \<Rightarrow> time" where
  "scan_dueDate [] d = d"
| "scan_dueDate (cf # cfs) d =
     scan_dueDate cfs
       (if CustomField_Name cf = ''Due Date''
        then (case CustomField_Value cf of VNumber val \<Rightarrow> UnixMilli val | _ \<Rightarrow> d)
        else d)"

definition issue_description :: "env \<Rightarrow> Issue \<Rightarrow> string" where
  "issue_description E issue = ''YouTrack Issue: '' @ yt_GetBaseURL E @ ''/issue/'' @ Issue_ID issue"

definition parse_Updated :: "env \<Rightarrow> calendar_Event \<Rightarrow> time" where
  "parse_Updated E event =
     (case time_Parse E (calendar_Event_Updated event) of None \<Rightarrow> zero_time | Some t \<Rightarrow> t)"

definition processYTissue :: "env \<Rightarrow> Synchronizer \<Rightarrow> Issue \<Rightarrow> world \<Rightarrow> world" where
  "processYTissue E S issue w =
     (case GetSyncItemByYTID E (Issue_ID issue) w of
        (Inl err, w1) \<Rightarrow> log_Printf ''Error getting sync item for YouTrack issue'' w1
      | (Inr found, w1) \<Rightarrow>
          (let dueDate = scan_dueDate (Issue_CustomFields issue) zero_time in
           case found of
             None \<Rightarrow>
               (if \<not> IsZero dueDate then
                  (case CreateEvent E (CalendarID S) (Issue_Summary issue) (issue_description E issue)
                          dueDate (Add dueDate Hour) w1 of
                     (Inl err, w2) \<Rightarrow> log_Printf ''Error creating Google Calendar event'' w2
                   | (Inr event, w2) \<Rightarrow>
                       (case CreateSyncItem E
                               \<lparr>ID = 0,
                                GCalID = Some (calendar_Event_Id event),
                                YTID = Some (Issue_ID issue),
                                GCalUpdatedAt = Some (parse_Updated E event),
                                YTUpdatedAt = Some (UnixMilli (Issue_Updated issue))\<rparr> w2 of
                          (Inl err, w3) \<Rightarrow> log_Printf ''Error creating sync item'' w3
                        | (Inr newID, w3) \<Rightarrow> w3))
                else w1)
           | Some syncItem \<Rightarrow>
               (if After (UnixMilli (Issue_Updated issue)) (NullTime_Time (YTUpdatedAt syncItem)) then
                  (case UpdateEvent E (CalendarID S) (NullString_String (GCalID syncItem))
                          (Issue_Summary issue) (issue_description E issue)
                          dueDate (Add dueDate Hour) w1 of
                     (res, w2) \<Rightarrow>
                       (case UpdateSyncItem E
                               (syncItem\<lparr>YTUpdatedAt := Some (UnixMilli (Issue_Updated issue))\<rparr>)
                               (case res of
                                  Inl err \<Rightarrow> log_Printf ''Error updating Google Calendar event'' w2
                                | Inr ev \<Rightarrow> w2) of
                          (Some e, w3) \<Rightarrow> log_Printf ''Error updating sync item'' w3
                        | (None, w3) \<Rightarrow> w3))
                else w1)))"

definition processYTissues :: "env \<Rightarrow> Synchronizer \<Rightarrow> Issue list \<Rightarrow> world \<Rightarrow> error option \<times> world" where
  "processYTissues E S issues w = (None, foldl (\<lambda>w' issue. processYTissue E S issue w') w issues)"

subsection \<open>handleDeletions\<close>

text \<open>
  \<^verbatim>\<open>gcalEventMap\<close>: the batch keyed by event id; a later event with the same id
  overwrites an earlier one.
\<close>

definition gcalEventMap :: "Event list \<Rightarrow> (string \<rightharpoonup> Event)" where
  "gcalEventMap gcalEvents = foldl (\<lambda>m event. m(Event_ID event \<mapsto> event)) Map.empty gcalEvents"

definition handleDeletion :: "env \<Rightarrow> (string \<rightharpoonup> Event) \<Rightarrow> SyncItem \<Rightarrow> world \<Rightarrow> world" where
  "handleDeletion E m item w =
     (case GCalID item of
        None \<Rightarrow> w
      | Some g \<Rightarrow>
          (case m g of
             None \<Rightarrow> w
           | Some event \<Rightarrow>
               (if Event_Status event = ''cancelled'' then
                  (case UpdateIssue E (NullString_String (YTID item)) [] [] None w of
                     (err, w1) \<Rightarrow>
                       (case DeleteSyncItem E (ID item)
                               (case err of
                                  Some e \<Rightarrow> log_Printf ''Error updating YouTrack issue'' w1
                                | None \<Rightarrow> w1) of
                          (Some e, w2) \<Rightarrow> log_Printf ''Error deleting sync item'' w2
                        | (None, w2) \<Rightarrow> w2))
                else w)))"

definition handleDeletions :: "env \<Rightarrow> Synchronizer \<Rightarrow> Event list \<Rightarrow> world \<Rightarrow> error option \<times> world" where
  "handleDeletions E S gcalEvents w =
     (case GetAllSyncItems E w of
        (Inl err, w1) \<Rightarrow> (Some (Wrapped ''failed to get all sync items'' err), w1)
      | (Inr allDbItems, w1) \<Rightarrow>
          (None, foldl (\<lambda>w' item. handleDeletion E (gcalEventMap gcalEvents) item w') w1 allDbItems))"

subsection \<open>processYTDeletions\<close>

definition processYTDeletion :: "env \<Rightarrow> Synchronizer \<Rightarrow> string \<Rightarrow> world \<Rightarrow> world" where
  "processYTDeletion E S ytID w =
     (case GetSyncItemByYTID E ytID w of
        (Inl err, w1) \<Rightarrow> log_Printf ''Error getting sync item for YouTrack issue'' w1
      | (Inr None, w1) \<Rightarrow> w1
      | (Inr (Some syncItem), w1) \<Rightarrow>
          (case GCalID syncItem of
             None \<Rightarrow> w1
           | Some g \<Rightarrow>
               (case DeleteEvent E (CalendarID S) g w1 of
                  (err, w2) \<Rightarrow>
                    (case DeleteSyncItem E (ID syncItem)
                            (case err of
                               Some e \<Rightarrow> log_Printf ''Error deleting Google Calendar event'' w2
                             | None \<Rightarrow> w2) of
                       (Some e, w3) \<Rightarrow> log_Printf ''Error deleting sync item'' w3
                     | (None, w3) \<Rightarrow> w3))))"

definition processYTDeletions :: "env \<Rightarrow> Synchronizer \<Rightarrow> string list \<Rightarrow> world \<Rightarrow> error option \<times> world" where
  "processYTDeletions E S deletedYTIDs w =
     (None, foldl (\<lambda>w' ytID. processYTDeletion E S ytID w') w deletedYTIDs)"

subsection \<open>Sync\<close>

text \<open>
  The end of \<^verbatim>\<open>Sync\<close>, after the four passes: the token is written when it is not
  empty and differs from the one loaded, then the clock is read and the watermark
  written. Neither failure is returned.
\<close>

definition Sync_commit :: "env \<Rightarrow> string \<Rightarrow> string \<Rightarrow> world \<Rightarrow> error option \<times> world" where
  "Sync_commit E gcalSyncToken newGCalSyncToken w =
     (case time_Now E
             (if newGCalSyncToken \<noteq> [] \<and> newGCalSyncToken \<noteq> gcalSyncToken then
                (case SetGCalSyncToken E newGCalSyncToken w of
                   (Some e, w1) \<Rightarrow> log_Printf ''Error setting Google Calendar sync token'' w1
                 | (None, w1) \<Rightarrow> w1)
              else w) of
        (t, w2) \<Rightarrow>
          (case SetYTLastSync E t w2 of
             (Some e, w3) \<Rightarrow> (None, log_Printf ''Error setting YouTrack last sync time'' w3)
           | (None, w3) \<Rightarrow> (None, w3)))"

text \<open>The four passes in their order; an error of a pass is returned as it is.\<close>

definition Sync_passes :: "env \<Rightarrow> Synchronizer \<Rightarrow> Event list \<Rightarrow> Issue list \<Rightarrow> string list \<Rightarrow> world \<Rightarrow> error option \<times> world" where
  "Sync_passes E S gcalEvents ytIssues ytDeletedIssueIDs w =
     (case processGCalEvents E S gcalEvents w of
        (Some err, w1) \<Rightarrow> (Some err, w1)
      | (None, w1) \<Rightarrow>
     (case processYTissues E S ytIssues w1 of
        (Some err, w2) \<Rightarrow> (Some err, w2)
      | (None, w2) \<Rightarrow>
     (case handleDeletions E S gcalEvents w2 of
        (Some err, w3) \<Rightarrow> (Some err, w3)
      | (None, w3) \<Rightarrow> processYTDeletions E S ytDeletedIssueIDs w3)))"

text \<open>The watermark the query uses: thirty days before now when none is stored.\<close>

definition effective_ytLastSync :: "env \<Rightarrow> time \<Rightarrow> world \<Rightarrow> time \<times> world" where
  "effective_ytLastSync E ytLastSync w =
     (if IsZero ytLastSync then
        (case time_Now E w of (n, w1) \<Rightarrow> (Add n (- (30 * 24 * Hour)), w1))
      else (ytLastSync, w))"

definition Sync :: "env \<Rightarrow> Synchronizer \<Rightarrow> world \<Rightarrow> error option \<times> world" where
  "Sync E S w =
     (case GetGCalSyncToken E w of
        (Inl err, w1) \<Rightarrow> (Some (Wrapped ''failed to get Google Calendar sync token'' err), w1)
      | (Inr gcalSyncToken, w1) \<Rightarrow>
     (case GetYTLastSync E w1 of
        (Inl err, w2) \<Rightarrow> (Some (Wrapped ''failed to get YouTrack last sync time'' err), w2)
      | (Inr stored, w2) \<Rightarrow>
     (case effective_ytLastSync E stored w2 of
        (ytLastSync, w3) \<Rightarrow>
     (case FetchEvents E (CalendarID S) gcalSyncToken w3 of
        (Inl err, w4) \<Rightarrow> (Some (Wrapped ''failed to fetch Google Calendar events'' err), w4)
      | (Inr (gcalEvents, newGCalSyncToken), w4) \<Rightarrow>
     (case GetUpdatedIssues E (YouTrackQueryProjectID S) ytLastSync w4 of
        (Inl err, w5) \<Rightarrow> (Some (Wrapped ''failed to fetch YouTrack issues'' err), w5)
      | (Inr ytIssues, w5) \<Rightarrow>
     (case GetDeletedIssueIDs E (YouTrackQueryProjectID S) ytLastSync w5 of
        (Inl err, w6) \<Rightarrow> (Some (Wrapped ''failed to fetch deleted YouTrack issue IDs'' err), w6)
      | (Inr ytDeletedIssueIDs, w6) \<Rightarrow>
     (case Sync_passes E S gcalEvents ytIssues ytDeletedIssueIDs w6 of
        (Some err, w7) \<Rightarrow> (Some err, w7)
      | (None, w7) \<Rightarrow> Sync_commit E gcalSyncToken newGCalSyncToken w7)))))))"

section \<open>The two adapters, as far as the reconciler's calls reach them\<close>

subsection \<open>youtrack.Client.UpdateIssue (youtrack/client.go)\<close>

datatype json =
    JString string
  | JNumber int
  | JArray "json list"
  | JObject "(string \<times> json) list"

record http_request =
  req_Method :: string
  req_URL :: string
  req_Header :: "(string \<times> string) list"
  req_Body :: json

record http_response =
  StatusCode :: nat
  resp_Body :: string

record Client =
  BaseURL :: string
  Token :: string

text \<open>
  The HTTP stack under the client: whether \<^verbatim>\<open>http.NewRequest\<close> accepts a URL, and
  what \<^verbatim>\<open>HTTPClient.Do\<close> returns for a request.
\<close>

record http_env =
  NewRequest_ok :: "string \<Rightarrow> bool"
  HTTPClient_Do :: "http_request \<Rightarrow> error + http_response"

text \<open>
  The map \<^verbatim>\<open>updates\<close>, as its list of entries: the two text fields always, the
  entry \<^verbatim>\<open>customFields\<close> only under \<^verbatim>\<open>if dueDate != nil\<close>.
\<close>

definition UpdateIssue_updates :: "string \<Rightarrow> string \<Rightarrow> time option \<Rightarrow> (string \<times> json) list" where
  "UpdateIssue_updates summary description dueDate =
     [(''summary'', JString summary), (''description'', JString description)] @
     (case dueDate of
        None \<Rightarrow> []
      | Some d \<Rightarrow>
          [(''customFields'',
            JArray [JObject [(''$type'', JString ''DateIssueCustomField''),
                             (''value'', JNumber (ToUnixMilli d))]])])"

definition UpdateIssue_request :: "Client \<Rightarrow> string \<Rightarrow> string \<Rightarrow> string \<Rightarrow> time option \<Rightarrow> http_request" where
  "UpdateIssue_request c issueID summary description dueDate =
     \<lparr>req_Method = ''POST'',
      req_URL = BaseURL c @ ''/api'' @ ''/issues/'' @ issueID,
      req_Header = [(''Authorization'', ''Bearer '' @ Token c),
                    (''Content-Type'', ''application/json''),
                    (''Accept'', ''application/json'')],
      req_Body = JObject (UpdateIssue_updates summary description dueDate)\<rparr>"

definition Client_UpdateIssue :: "http_env \<Rightarrow> Client \<Rightarrow> string \<Rightarrow> string \<Rightarrow> string \<Rightarrow> time option \<Rightarrow> error option" where
  "Client_UpdateIssue H c issueID summary description dueDate =
     (if \<not> NewRequest_ok H (req_URL (UpdateIssue_request c issueID summary description dueDate))
      then Some (Wrapped ''failed to create request'' ErrRequest)
      else
        (case HTTPClient_Do H (UpdateIssue_request c issueID summary description dueDate) of
           Inl err \<Rightarrow> Some (Wrapped ''failed to send request'' err)
         | Inr resp \<Rightarrow>
             (if StatusCode resp = 404 then Some ErrNotFound
              else if StatusCode resp \<noteq> 200 then Some (ErrStatus (StatusCode resp))
              else None)))"

subsection \<open>googlecalendar.Client.CreateEvent (googlecalendar/client.go)\<close>

text \<open>
  The \<^verbatim>\<open>calendar.Event\<close> handed to \<^verbatim>\<open>Events.Insert\<close>: both ends carry only a
  \<^verbatim>\<open>Date\<close>, which makes the event a whole-day one; \<open>off\<close> is the offset of the
  location of the two instants.
\<close>

record insert_event =
  insert_Summary :: string
  insert_Description :: string
  insert_Start_Date :: int
  insert_End_Date :: int

definition CreateEvent_event :: "int \<Rightarrow> string \<Rightarrow> string \<Rightarrow> time \<Rightarrow> time \<Rightarrow> insert_event" where
  "CreateEvent_event off summary description start end' =
     \<lparr>insert_Summary = summary,
      insert_Description = description,
      insert_Start_Date = Format_date off start,
      insert_End_Date = Format_date off (AddDate_days end' 1)\<rparr>"

text \<open>
  The whole-day spans (first day, exclusive last day) of the events that the recorded
  \<^verbatim>\<open>CreateEvent\<close> calls insert when the client of googlecalendar serves them.
\<close>

fun created_spans :: "int \<Rightarrow> remote_call list \<Rightarrow> (int \<times> int) list" where
  "created_spans off [] = []"
| "created_spans off (CallCreateEvent calendarID summary description start end' # cs) =
     (insert_Start_Date (CreateEvent_event off summary description start end'),
      insert_End_Date (CreateEvent_event off summary description start end')) # created_spans off cs"
| "created_spans off (c # cs) = created_spans off cs"

section \<open>Predicates used to state the properties\<close>




text \<open>A binding that lacks one of its two remote ids, and two rows of the same binding.\<close>

definition half_bound :: "SyncItem \<Rightarrow> bool" where
  "half_bound r = (GCalID r = None \<or> YTID r = None)"

definition same_binding :: "SyncItem \<Rightarrow> SyncItem \<Rightarrow> bool" where
  "same_binding r r0 = (ID r = ID r0 \<and> GCalID r = GCalID r0 \<and> YTID r = YTID r0)"

text \<open>
  Every row of the store of \<open>w\<close> that is half bound is a row of one of the bindings
  \<open>old\<close>.
\<close>

definition derives_from :: "SyncItem list \<Rightarrow> world \<Rightarrow> bool" where
  "derives_from old w =
     list_all (\<lambda>r. half_bound r \<longrightarrow> list_ex (same_binding r) old) (sync_items w)"

text \<open>The six messages under which \<^verbatim>\<open>Sync\<close> returns an error.\<close>

definition propagating :: "string list" where
  "propagating =
     [''failed to get Google Calendar sync token'',
      ''failed to get YouTrack last sync time'',
      ''failed to fetch Google Calendar events'',
      ''failed to fetch YouTrack issues'',
      ''failed to fetch deleted YouTrack issue IDs'',
      ''failed to get all sync items'']"

text \<open>
  The end of \<^verbatim>\<open>Sync\<close>, in ticks. The token is written (one statement, at the tick
  at which the end begins) when it is not empty and differs from the one loaded;
  \<open>commit_tick\<close> is the tick at which the clock is read after that; the write of the
  watermark is the statement at the next tick, followed by a second statement when
  the table has no row by then.
\<close>

definition token_written :: "string \<Rightarrow> string \<Rightarrow> bool" where
  "token_written gcalSyncToken newGCalSyncToken =
     (newGCalSyncToken \<noteq> [] \<and> newGCalSyncToken \<noteq> gcalSyncToken)"

definition commit_tick :: "string \<Rightarrow> string \<Rightarrow> world \<Rightarrow> nat" where
  "commit_tick gcalSyncToken newGCalSyncToken w =
     (if token_written gcalSyncToken newGCalSyncToken then Suc (ticks w) else ticks w)"

definition token_write_fails :: "env \<Rightarrow> string \<Rightarrow> string \<Rightarrow> world \<Rightarrow> bool" where
  "token_write_fails E gcalSyncToken newGCalSyncToken w =
     (token_written gcalSyncToken newGCalSyncToken \<and> db_fault E (ticks w))"

definition watermark_write_fails :: "env \<Rightarrow> string \<Rightarrow> string \<Rightarrow> world \<Rightarrow> bool" where
  "watermark_write_fails E gcalSyncToken newGCalSyncToken w =
     (db_fault E (Suc (commit_tick gcalSyncToken newGCalSyncToken w)) \<or>
      (last_sync w = None \<and>
       (if token_written gcalSyncToken newGCalSyncToken then db_fault E (ticks w) else True) \<and>
       db_fault E (Suc (Suc (commit_tick gcalSyncToken newGCalSyncToken w)))))"

section \<open>Concrete runs\<close>

definition the_sync :: Synchronizer where
  "the_sync = \<lparr>YouTrackProjectID = ''PRJ'', YouTrackQueryProjectID = ''PRJ'', CalendarID = ''primary''\<rparr>"

text \<open>
  An environment in which nothing fails and nothing has changed on either side: the
  calendar answers with an empty batch and the token \<open>tok-2\<close>.
\<close>

definition quiet_env :: env where
  "quiet_env =
     \<lparr>now = (\<lambda>n. 1000 + int n),
      db_fault = (\<lambda>n. False),
      time_Parse = (\<lambda>s. None),
      gcal_FetchEvents = (\<lambda>n calendarID syncToken. Inr ([], ''tok-2'')),
      gcal_CreateEvent = (\<lambda>n calendarID summary description start end'.
         Inr \<lparr>calendar_Event_Id = ''EV-new'', calendar_Event_Updated = []\<rparr>),
      gcal_UpdateEvent = (\<lambda>n calendarID eventID summary description start end'.
         Inr \<lparr>calendar_Event_Id = eventID, calendar_Event_Updated = []\<rparr>),
      gcal_DeleteEvent = (\<lambda>n calendarID eventID. None),
      yt_GetUpdatedIssues = (\<lambda>n projectID since. Inr []),
      yt_CreateIssue = (\<lambda>n projectID summary description dueDate.
         Inr \<lparr>Issue_ID = ''YT-new'', Issue_IDReadable = ''PRJ-9'', Issue_Summary = summary,
              Issue_Description = description, Issue_Updated = 9, Issue_CustomFields = []\<rparr>),
      yt_UpdateIssue = (\<lambda>n issueID summary description dueDate. None),
      yt_GetDeletedIssueIDs = (\<lambda>n projectID since. Inr []),
      yt_GetBaseURL = ''https://yt''\<rparr>"

text \<open>
  The same, with every \<^verbatim>\<open>UpdateIssue\<close> and every \<^verbatim>\<open>UpdateEvent\<close> failing on the
  remote side.
\<close>

definition update_fails_env :: env where
  "update_fails_env =
     quiet_env\<lparr>gcal_UpdateEvent := (\<lambda>n calendarID eventID summary description start end'. Inl ErrTransport),
               yt_UpdateIssue := (\<lambda>n issueID summary description dueDate. Some ErrTransport)\<rparr>"

text \<open>The same as \<open>quiet_env\<close>, with the database statements at the ticks \<open>ks\<close> failing.\<close>

definition fault_env :: "nat list \<Rightarrow> env" where
  "fault_env ks = quiet_env\<lparr>db_fault := (\<lambda>n. n \<in> set ks)\<rparr>"

text \<open>The same as \<open>quiet_env\<close>, with the calendar reporting one event in its batch.\<close>

definition batch_env :: "Event \<Rightarrow> env" where
  "batch_env event = quiet_env\<lparr>gcal_FetchEvents := (\<lambda>n calendarID syncToken. Inr ([event], ''tok-2''))\<rparr>"

definition empty_world :: world where
  "empty_world = \<lparr>sync_items = [], rowid_seq = 0, last_sync = None, ticks = 0, calls = [], logs = []\<rparr>"

definition the_binding :: SyncItem where
  "the_binding =
     \<lparr>ID = 1, GCalID = Some ''EV-1'', YTID = Some ''YT-1'',
      GCalUpdatedAt = Some 100, YTUpdatedAt = Some (UnixMilli 7)\<rparr>"

text \<open>A store with one binding and both cursor slots set.\<close>

definition bound_world :: world where
  "bound_world =
     \<lparr>sync_items = [the_binding], rowid_seq = 1,
      last_sync = Some \<lparr>gcal_sync_token = Some ''tok-1'', yt_last_sync = Some 50\<rparr>,
      ticks = 0, calls = [], logs = []\<rparr>"

definition the_event :: "string \<Rightarrow> time \<Rightarrow> Event" where
  "the_event status updated =
     \<lparr>Event_ID = ''EV-1'', Event_Summary = ''Kickoff'', Event_HTMLLink = ''https://cal/EV-1'',
      Event_Start = 500, Event_End = 600, Event_Status = status, Event_Organizer = [],
      Event_Recurrence = [], Event_RecurringEventID = [], Event_Updated = updated\<rparr>"

definition the_issue :: "int \<Rightarrow> CustomField list \<Rightarrow> Issue" where
  "the_issue updated cfs =
     \<lparr>Issue_ID = ''YT-1'', Issue_IDReadable = ''PRJ-1'', Issue_Summary = ''Review'',
      Issue_Description = [], Issue_Updated = updated, Issue_CustomFields = cfs\<rparr>"

text \<open>A due date of 2023-11-15 23:30:00 UTC (day 19676 since 1970-01-01), in milliseconds.\<close>

definition late_due :: CustomField where
  "late_due =
     \<lparr>CustomField_Type = ''DateIssueCustomField'', CustomField_ID = ''f1'',
      CustomField_Name = ''Due Date'', CustomField_Value = VNumber 1700091000000\<rparr>"

section \<open>Basic facts about the world\<close>

lemma sync_items_tick [simp]: "sync_items (tick w) = sync_items w"
  by (simp add: tick_def)

lemma sync_items_log_Printf [simp]: "sync_items (log_Printf m w) = sync_items w"
  by (simp add: log_Printf_def)

lemma sync_items_issue_call [simp]: "sync_items (issue_call c w) = sync_items w"
  by (simp add: issue_call_def)

lemma calls_tick [simp]: "calls (tick w) = calls w"
  by (simp add: tick_def)

lemma calls_log_Printf [simp]: "calls (log_Printf m w) = calls w"
  by (simp add: log_Printf_def)

lemma calls_issue_call [simp]: "calls (issue_call c w) = calls w @ [c]"
  by (simp add: issue_call_def)

lemma ticks_tick [simp]: "ticks (tick w) = Suc (ticks w)"
  by (simp add: tick_def)

lemma ticks_log_Printf [simp]: "ticks (log_Printf m w) = ticks w"
  by (simp add: log_Printf_def)

lemma ticks_issue_call [simp]: "ticks (issue_call c w) = ticks w"
  by (simp add: issue_call_def)

lemma ticks_Create: "ticks (snd (CreateSyncItem E item w)) = Suc (ticks w)"
  by (simp add: CreateSyncItem_def)

lemma ticks_Update: "ticks (snd (UpdateSyncItem E item w)) = Suc (ticks w)"
  by (simp add: UpdateSyncItem_def)

lemma ticks_Delete: "ticks (snd (DeleteSyncItem E i w)) = Suc (ticks w)"
  by (simp add: DeleteSyncItem_def)

lemma snd_GetGCalSyncToken: "snd (GetGCalSyncToken E w) = tick w"
  by (simp add: GetGCalSyncToken_def split: option.split)

lemma snd_GetYTLastSync: "snd (GetYTLastSync E w) = tick w"
  by (simp add: GetYTLastSync_def split: option.split)

lemma ticks_effective_ytLastSync: "ticks w \<le> ticks (snd (effective_ytLastSync E stored w))"
  by (simp add: effective_ytLastSync_def time_Now_def)

lemma find_in_set: "find P xs = Some x \<Longrightarrow> x \<in> set xs"
  by (auto simp add: find_Some_iff)

lemma foldl_invariant:
  "(\<And>x v. P v \<Longrightarrow> P (f v x)) \<Longrightarrow> P v \<Longrightarrow> P (foldl f v xs)"
  by (induction xs arbitrary: v) auto

lemma map_replace_absent:
  "\<not> list_ex (\<lambda>r. ID r = i) xs \<Longrightarrow> map (\<lambda>r. if ID r = i then item else r) xs = xs"
  by (induction xs) auto

section \<open>What a pass preserves\<close>

text \<open>
  A property of the world that survives a tick, a log line, a recorded remote call,
  the insertion of a fully bound row, the re-stamping of a row that is in the store
  and the deletion of a row, survives each of the four passes.
\<close>

lemma processGCalEvent_preserves:
  assumes "P w"
    and t: "\<And>v. P v \<Longrightarrow> P (tick v)"
    and l: "\<And>v m. P v \<Longrightarrow> P (log_Printf m v)"
    and c: "\<And>v k. P v \<Longrightarrow> P (issue_call k v)"
    and cr: "\<And>v item. P v \<Longrightarrow> \<not> half_bound item \<Longrightarrow> P (snd (CreateSyncItem E item v))"
    and up: "\<And>v b ts. P v \<Longrightarrow> b \<in> set (sync_items v)
                \<Longrightarrow> P (snd (UpdateSyncItem E (b\<lparr>GCalUpdatedAt := ts\<rparr>) v))"
  shows "P (processGCalEvent E S event w)"
  using assms(1)
  by (simp add: processGCalEvent_def GetSyncItemByGCalID_def CreateIssue_def UpdateIssue_def
      case_prod_beta find_in_set half_bound_def t l c cr up
      split: sum.split option.split)

lemma processYTissue_preserves:
  assumes "P w"
    and t: "\<And>v. P v \<Longrightarrow> P (tick v)"
    and l: "\<And>v m. P v \<Longrightarrow> P (log_Printf m v)"
    and c: "\<And>v k. P v \<Longrightarrow> P (issue_call k v)"
    and cr: "\<And>v item. P v \<Longrightarrow> \<not> half_bound item \<Longrightarrow> P (snd (CreateSyncItem E item v))"
    and up: "\<And>v b ts. P v \<Longrightarrow> b \<in> set (sync_items v)
                \<Longrightarrow> P (snd (UpdateSyncItem E (b\<lparr>YTUpdatedAt := ts\<rparr>) v))"
  shows "P (processYTissue E S issue w)"
  using assms(1)
  by (simp add: processYTissue_def GetSyncItemByYTID_def CreateEvent_def UpdateEvent_def
      case_prod_beta find_in_set half_bound_def Let_def t l c cr up
      split: sum.split option.split)

lemma handleDeletion_preserves:
  assumes "P w"
    and t: "\<And>v. P v \<Longrightarrow> P (tick v)"
    and l: "\<And>v m. P v \<Longrightarrow> P (log_Printf m v)"
    and c: "\<And>v k. P v \<Longrightarrow> P (issue_call k v)"
    and del: "\<And>v i. P v \<Longrightarrow> P (snd (DeleteSyncItem E i v))"
  shows "P (handleDeletion E m item w)"
  using assms(1)
  by (simp add: handleDeletion_def UpdateIssue_def case_prod_beta t l c del
      split: sum.split option.split)

lemma processYTDeletion_preserves:
  assumes "P w"
    and t: "\<And>v. P v \<Longrightarrow> P (tick v)"
    and l: "\<And>v m. P v \<Longrightarrow> P (log_Printf m v)"
    and c: "\<And>v k. P v \<Longrightarrow> P (issue_call k v)"
    and del: "\<And>v i. P v \<Longrightarrow> P (snd (DeleteSyncItem E i v))"
  shows "P (processYTDeletion E S ytID w)"
  using assms(1)
  by (simp add: processYTDeletion_def GetSyncItemByYTID_def DeleteEvent_def case_prod_beta t l c del
      split: sum.split option.split)

lemma Sync_passes_preserves:
  assumes "P w"
    and t: "\<And>v. P v \<Longrightarrow> P (tick v)"
    and l: "\<And>v m. P v \<Longrightarrow> P (log_Printf m v)"
    and c: "\<And>v k. P v \<Longrightarrow> P (issue_call k v)"
    and cr: "\<And>v item. P v \<Longrightarrow> \<not> half_bound item \<Longrightarrow> P (snd (CreateSyncItem E item v))"
    and upG: "\<And>v b ts. P v \<Longrightarrow> b \<in> set (sync_items v)
                \<Longrightarrow> P (snd (UpdateSyncItem E (b\<lparr>GCalUpdatedAt := ts\<rparr>) v))"
    and upY: "\<And>v b ts. P v \<Longrightarrow> b \<in> set (sync_items v)
                \<Longrightarrow> P (snd (UpdateSyncItem E (b\<lparr>YTUpdatedAt := ts\<rparr>) v))"
    and del: "\<And>v i. P v \<Longrightarrow> P (snd (DeleteSyncItem E i v))"
  shows "P (snd (Sync_passes E S evs issues ids w))"
proof -
  have p1: "P (snd (processGCalEvents E S evs v))" if "P v" for v
    unfolding processGCalEvents_def snd_conv
    by (rule foldl_invariant[where P = P, OF _ that])
      (rule processGCalEvent_preserves[where P = P, OF _ t l c cr upG])
  have p2: "P (snd (processYTissues E S issues v))" if "P v" for v
    unfolding processYTissues_def snd_conv
    by (rule foldl_invariant[where P = P, OF _ that])
      (rule processYTissue_preserves[where P = P, OF _ t l c cr upY])
  have p3: "P (snd (handleDeletions E S evs v))" if "P v" for v
  proof (cases "db_fault E (ticks v)")
    case True
    then show ?thesis using that by (simp add: handleDeletions_def GetAllSyncItems_def t)
  next
    case False
    then have "snd (handleDeletions E S evs v) =
        foldl (\<lambda>w' item. handleDeletion E (gcalEventMap evs) item w') (tick v) (sync_items v)"
      by (simp add: handleDeletions_def GetAllSyncItems_def)
    moreover have "P (foldl (\<lambda>w' item. handleDeletion E (gcalEventMap evs) item w') (tick v) (sync_items v))"
      by (rule foldl_invariant[where P = P, OF _ t[OF that]])
        (rule handleDeletion_preserves[where P = P, OF _ t l c del])
    ultimately show ?thesis by simp
  qed
  have p4: "P (snd (processYTDeletions E S ids v))" if "P v" for v
    unfolding processYTDeletions_def snd_conv
    by (rule foldl_invariant[where P = P, OF _ that])
      (rule processYTDeletion_preserves[where P = P, OF _ t l c del])
  show ?thesis
    using p1[OF assms(1)] p2 p3 p4
    by (simp add: Sync_passes_def case_prod_beta split: option.split)
qed

lemma Sync_preserves:
  assumes "P w"
    and t: "\<And>v. P v \<Longrightarrow> P (tick v)"
    and l: "\<And>v m. P v \<Longrightarrow> P (log_Printf m v)"
    and c: "\<And>v k. P v \<Longrightarrow> P (issue_call k v)"
    and cr: "\<And>v item. P v \<Longrightarrow> \<not> half_bound item \<Longrightarrow> P (snd (CreateSyncItem E item v))"
    and upG: "\<And>v b ts. P v \<Longrightarrow> b \<in> set (sync_items v)
                \<Longrightarrow> P (snd (UpdateSyncItem E (b\<lparr>GCalUpdatedAt := ts\<rparr>) v))"
    and upY: "\<And>v b ts. P v \<Longrightarrow> b \<in> set (sync_items v)
                \<Longrightarrow> P (snd (UpdateSyncItem E (b\<lparr>YTUpdatedAt := ts\<rparr>) v))"
    and del: "\<And>v i. P v \<Longrightarrow> P (snd (DeleteSyncItem E i v))"
    and ls: "\<And>v x. P v \<Longrightarrow> P (v\<lparr>last_sync := x\<rparr>)"
  shows "P (snd (Sync E S w))"
proof -
  have ps: "P (snd (Sync_passes E S evs issues ids v))" if "P v" for v evs issues ids
    by (rule Sync_passes_preserves[where P = P, OF that t l c cr upG upY del])
  have cm: "P (snd (Sync_commit E tok newtok v))" if "P v" for v tok newtok
    using that
    by (simp add: Sync_commit_def SetGCalSyncToken_def SetYTLastSync_def time_Now_def
        case_prod_beta t l ls split: option.split)
  show ?thesis
    using assms(1)
    by (simp add: Sync_def GetGCalSyncToken_def GetYTLastSync_def effective_ytLastSync_def
        time_Now_def FetchEvents_def GetUpdatedIssues_def GetDeletedIssueIDs_def
        case_prod_beta t ps cm split: sum.split option.split)
qed

lemma ticks_Sync_passes: "ticks w \<le> ticks (snd (Sync_passes E S evs issues ids w))"
  by (rule Sync_passes_preserves[where P = "\<lambda>v. ticks w \<le> ticks v"])
    (simp_all add: ticks_Create ticks_Update ticks_Delete)

section \<open>Which errors a run returns\<close>

lemma fst_processGCalEvents: "fst (processGCalEvents E S evs w) = None"
  by (simp add: processGCalEvents_def)

lemma fst_processYTissues: "fst (processYTissues E S issues w) = None"
  by (simp add: processYTissues_def)

lemma fst_processYTDeletions: "fst (processYTDeletions E S ids w) = None"
  by (simp add: processYTDeletions_def)

lemma fst_handleDeletions:
  "fst (handleDeletions E S evs w) =
     (if db_fault E (ticks w) then Some (Wrapped ''failed to get all sync items'' ErrStore) else None)"
  by (simp add: handleDeletions_def GetAllSyncItems_def)

lemma fst_Sync_commit: "fst (Sync_commit E tok newtok w) = None"
  by (simp add: Sync_commit_def split: prod.splits option.splits)

lemma fst_Sync_passes:
  assumes "fst (Sync_passes E S evs issues ids w) = Some e"
  shows "e = Wrapped ''failed to get all sync items'' ErrStore"
proof -
  obtain w1 where p1: "processGCalEvents E S evs w = (None, w1)"
    using fst_processGCalEvents[of E S evs w] by (cases "processGCalEvents E S evs w") simp
  obtain w2 where p2: "processYTissues E S issues w1 = (None, w2)"
    using fst_processYTissues[of E S issues w1] by (cases "processYTissues E S issues w1") simp
  obtain r w3 where p3: "handleDeletions E S evs w2 = (r, w3)"
    by (cases "handleDeletions E S evs w2")
  show ?thesis
  proof (cases r)
    case None
    then have "Sync_passes E S evs issues ids w = processYTDeletions E S ids w3"
      by (simp add: Sync_passes_def p1 p2 p3)
    with assms show ?thesis by (simp add: fst_processYTDeletions)
  next
    case (Some e')
    then have "fst (Sync_passes E S evs issues ids w) = Some e'"
      by (simp add: Sync_passes_def p1 p2 p3)
    moreover have "e' = Wrapped ''failed to get all sync items'' ErrStore"
      using fst_handleDeletions[of E S evs w2] Some p3 by (simp split: if_splits)
    ultimately show ?thesis using assms by simp
  qed
qed

lemma Sync_cases:
  "(\<exists>m cause w'. Sync E S w = (Some (Wrapped m cause), w') \<and> m \<in> set propagating)
 \<or> (\<exists>tok newtok w7. Sync E S w = Sync_commit E tok newtok w7 \<and> ticks w + 5 \<le> ticks w7)"
proof -
  have leaf: "?thesis" if "Sync E S w = (Some (Wrapped m cause), w')" "m \<in> set propagating"
    for m cause w'
    using that by blast
  obtain r1 w1 where a1: "GetGCalSyncToken E w = (r1, w1)"
    by (cases "GetGCalSyncToken E w")
  have t1: "ticks w1 = ticks w + 1"
    using snd_GetGCalSyncToken[of E w] a1 by simp
  show ?thesis
  proof (cases r1)
    case (Inl err)
    with a1 have "Sync E S w = (Some (Wrapped ''failed to get Google Calendar sync token'' err), w1)"
      by (simp add: Sync_def)
    then show ?thesis by (rule leaf) (simp add: propagating_def)
  next
    case b1: (Inr tok)
    obtain r2 w2 where a2: "GetYTLastSync E w1 = (r2, w2)"
      by (cases "GetYTLastSync E w1")
    have t2: "ticks w2 = ticks w + 2"
      using snd_GetYTLastSync[of E w1] a2 t1 by simp
    show ?thesis
    proof (cases r2)
      case (Inl err)
      with a1 b1 a2 have "Sync E S w = (Some (Wrapped ''failed to get YouTrack last sync time'' err), w2)"
        by (simp add: Sync_def)
      then show ?thesis by (rule leaf) (simp add: propagating_def)
    next
      case b2: (Inr stored)
      obtain t w3 where a3: "effective_ytLastSync E stored w2 = (t, w3)"
        by (cases "effective_ytLastSync E stored w2")
      have t3: "ticks w + 2 \<le> ticks w3"
        using ticks_effective_ytLastSync[of w2 E stored] a3 t2 by simp
      obtain r4 w4 where a4: "FetchEvents E (CalendarID S) tok w3 = (r4, w4)"
        by (cases "FetchEvents E (CalendarID S) tok w3")
      have t4: "ticks w + 3 \<le> ticks w4"
        using a4 t3 by (auto simp add: FetchEvents_def)
      show ?thesis
      proof (cases r4)
        case (Inl err)
        with a1 b1 a2 b2 a3 a4
        have "Sync E S w = (Some (Wrapped ''failed to fetch Google Calendar events'' err), w4)"
          by (simp add: Sync_def)
        then show ?thesis by (rule leaf) (simp add: propagating_def)
      next
        case (Inr p)
        then obtain evs newtok where b4: "r4 = Inr (evs, newtok)"
          by (cases p) simp
        obtain r5 w5 where a5: "GetUpdatedIssues E (YouTrackQueryProjectID S) t w4 = (r5, w5)"
          by (cases "GetUpdatedIssues E (YouTrackQueryProjectID S) t w4")
        have t5: "ticks w + 4 \<le> ticks w5"
          using a5 t4 by (auto simp add: GetUpdatedIssues_def)
        show ?thesis
        proof (cases r5)
          case (Inl err)
          with a1 b1 a2 b2 a3 a4 b4 a5
          have "Sync E S w = (Some (Wrapped ''failed to fetch YouTrack issues'' err), w5)"
            by (simp add: Sync_def)
          then show ?thesis by (rule leaf) (simp add: propagating_def)
        next
          case b5: (Inr issues)
          obtain r6 w6 where a6: "GetDeletedIssueIDs E (YouTrackQueryProjectID S) t w5 = (r6, w6)"
            by (cases "GetDeletedIssueIDs E (YouTrackQueryProjectID S) t w5")
          have t6: "ticks w + 5 \<le> ticks w6"
            using a6 t5 by (auto simp add: GetDeletedIssueIDs_def)
          show ?thesis
          proof (cases r6)
            case (Inl err)
            with a1 b1 a2 b2 a3 a4 b4 a5 b5 a6
            have "Sync E S w = (Some (Wrapped ''failed to fetch deleted YouTrack issue IDs'' err), w6)"
              by (simp add: Sync_def)
            then show ?thesis by (rule leaf) (simp add: propagating_def)
          next
            case b6: (Inr ids)
            obtain r7 w7 where a7: "Sync_passes E S evs issues ids w6 = (r7, w7)"
              by (cases "Sync_passes E S evs issues ids w6")
            have t7: "ticks w + 5 \<le> ticks w7"
              using ticks_Sync_passes[of w6 E S evs issues ids] a7 t6 by simp
            show ?thesis
            proof (cases r7)
              case None
              with a1 b1 a2 b2 a3 a4 b4 a5 b5 a6 b6 a7
              have "Sync E S w = Sync_commit E tok newtok w7"
                by (simp add: Sync_def)
              with t7 show ?thesis by blast
            next
              case (Some e')
              have "e' = Wrapped ''failed to get all sync items'' ErrStore"
                using fst_Sync_passes[of E S evs issues ids w6 e'] a7 Some by simp
              with Some a1 b1 a2 b2 a3 a4 b4 a5 b5 a6 b6 a7
              have "Sync E S w = (Some (Wrapped ''failed to get all sync items'' ErrStore), w7)"
                by (simp add: Sync_def)
              then show ?thesis by (rule leaf) (simp add: propagating_def)
            qed
          qed
        qed
      qed
    qed
  qed
qed

section \<open>The final write of the cursors\<close>

lemma Sync_commit_stores:
  assumes "\<not> watermark_write_fails E tok newtok w"
  shows "map_option yt_last_sync (last_sync (snd (Sync_commit E tok newtok w)))
           = Some (Some (now E (commit_tick tok newtok w)))"
proof (cases "newtok \<noteq> [] \<and> newtok \<noteq> tok")
  case True
  show ?thesis
    using assms
    unfolding Sync_commit_def watermark_write_fails_def commit_tick_def token_written_def if_P[OF True]
    by (cases "db_fault E (ticks w)"; cases "last_sync w")
      (simp_all add: SetGCalSyncToken_def SetYTLastSync_def time_Now_def tick_def log_Printf_def)
next
  case False
  show ?thesis
    using assms
    unfolding Sync_commit_def watermark_write_fails_def commit_tick_def token_written_def if_not_P[OF False]
    by (cases "last_sync w")
      (simp_all add: SetYTLastSync_def time_Now_def tick_def log_Printf_def)
qed

lemma Sync_commit_logs_watermark_failure:
  assumes "watermark_write_fails E tok newtok w"
  shows "last (logs (snd (Sync_commit E tok newtok w))) = ''Error setting YouTrack last sync time''"
proof (cases "newtok \<noteq> [] \<and> newtok \<noteq> tok")
  case True
  show ?thesis
    using assms
    unfolding Sync_commit_def watermark_write_fails_def commit_tick_def token_written_def if_P[OF True]
    by (cases "db_fault E (ticks w)"; cases "last_sync w")
      (auto simp add: SetGCalSyncToken_def SetYTLastSync_def time_Now_def tick_def log_Printf_def)
next
  case False
  show ?thesis
    using assms
    unfolding Sync_commit_def watermark_write_fails_def commit_tick_def token_written_def if_not_P[OF False]
    by (cases "last_sync w")
      (auto simp add: SetYTLastSync_def time_Now_def tick_def log_Printf_def)
qed

lemma Sync_commit_logs_token_failure:
  assumes "token_write_fails E tok newtok w"
  shows "''Error setting Google Calendar sync token'' \<in> set (logs (snd (Sync_commit E tok newtok w)))"
  using assms
  by (simp add: Sync_commit_def token_write_fails_def token_written_def SetGCalSyncToken_def
      SetYTLastSync_def time_Now_def tick_def log_Printf_def case_prod_beta split: option.split)

section \<open>The pass over the cancelled events\<close>








section \<open>Half-bound rows\<close>

lemma derives_from_tick [simp]: "derives_from old (tick w) = derives_from old w"
  by (simp add: derives_from_def)

lemma derives_from_log_Printf [simp]: "derives_from old (log_Printf m w) = derives_from old w"
  by (simp add: derives_from_def)

lemma derives_from_issue_call [simp]: "derives_from old (issue_call c w) = derives_from old w"
  by (simp add: derives_from_def)

lemma derives_from_last_sync [simp]: "derives_from old (w\<lparr>last_sync := x\<rparr>) = derives_from old w"
  by (simp add: derives_from_def)

lemma derives_from_Create:
  "derives_from old w \<Longrightarrow> \<not> half_bound item \<Longrightarrow> derives_from old (snd (CreateSyncItem E item w))"
  by (auto simp add: derives_from_def CreateSyncItem_def half_bound_def)

lemma derives_from_Update:
  "derives_from old w \<Longrightarrow> b \<in> set (sync_items w) \<Longrightarrow> same_binding item b
     \<Longrightarrow> derives_from old (snd (UpdateSyncItem E item w))"
  by (auto simp add: derives_from_def UpdateSyncItem_def half_bound_def same_binding_def
      list_all_iff list_ex_iff)

lemma derives_from_Delete:
  "derives_from old w \<Longrightarrow> derives_from old (snd (DeleteSyncItem E i w))"
  by (auto simp add: derives_from_def DeleteSyncItem_def list_all_iff)

lemma derives_from_self: "derives_from (sync_items w) w"
  by (auto simp add: derives_from_def list_all_iff list_ex_iff same_binding_def)

section \<open>Evaluating concrete runs\<close>

lemmas world_defs = tick_def log_Printf_def issue_call_def time_Now_def

lemmas store_defs =
  GetSyncItemByGCalID_def GetSyncItemByYTID_def GetAllSyncItems_def CreateSyncItem_def
  UpdateSyncItem_def DeleteSyncItem_def GetGCalSyncToken_def SetGCalSyncToken_def
  GetYTLastSync_def SetYTLastSync_def collides_def next_rowid_def

lemmas client_defs =
  FetchEvents_def GetUpdatedIssues_def GetDeletedIssueIDs_def CreateIssue_def UpdateIssue_def
  CreateEvent_def UpdateEvent_def DeleteEvent_def

lemmas pass_defs =
  processGCalEvents_def processGCalEvent_def processYTissues_def processYTissue_def
  handleDeletions_def handleDeletion_def gcalEventMap_def processYTDeletions_def
  processYTDeletion_def issue_description_def parse_Updated_def
  NullString_String_def NullTime_Time_def

lemmas run_defs = Sync_def Sync_passes_def Sync_commit_def effective_ytLastSync_def

lemmas time_defs = IsZero_def After_def zero_time_def Add_def Hour_def UnixMilli_def

lemmas example_defs =
  the_sync_def quiet_env_def update_fails_env_def fault_env_def batch_env_def empty_world_def
  the_binding_def bound_world_def the_event_def the_issue_def late_due_def

section \<open>The claims\<close>

subsection \<open>C1\<close>

text \<open>
  Claim C1: for a CAL event (and for an IT issue) that has a binding and a remote update
  instant later than the binding's stamp for that side, the stamp is advanced only if
  the update call to the other side succeeded; when that call fails the binding row
  is left unchanged.

  The code does otherwise: after a failed \<^verbatim>\<open>UpdateIssue\<close> (or
  \<^verbatim>\<open>UpdateEvent\<close>) the loop logs the error and goes on to stamp the binding, where the
  create branch of the same loop leaves the iteration. The run below has one binding
  with CAL stamp 100, one event with update instant 200 and a remote side that refuses
  every update: the error is logged and the stored stamp becomes 200. The same holds
  of the IT side, with stamps 7 ms and 8 ms.
\<close>

theorem binding_advanced_after_failed_update:
  "processGCalEvents update_fails_env the_sync [the_event ''confirmed'' 200] bound_world =
     (None, bound_world\<lparr>sync_items := [the_binding\<lparr>GCalUpdatedAt := Some 200\<rparr>],
              ticks := 3,
              calls := [CallUpdateIssue ''YT-1'' ''Kickoff'' ''https://cal/EV-1'' (Some 500)],
              logs := [''Error updating YouTrack task'']\<rparr>)
 \<and> processYTissues update_fails_env the_sync [the_issue 8 [late_due]] bound_world =
     (None, bound_world\<lparr>sync_items := [the_binding\<lparr>YTUpdatedAt := Some (UnixMilli 8)\<rparr>],
              ticks := 3,
              calls := [CallUpdateEvent ''primary'' ''EV-1'' ''Review''
                          ''YouTrack Issue: https://yt/issue/YT-1''
                          (UnixMilli 1700091000000) (Add (UnixMilli 1700091000000) Hour)],
              logs := [''Error updating Google Calendar event'']\<rparr>)"
  by (simp add: pass_defs store_defs client_defs world_defs time_defs example_defs Let_def)

subsection \<open>C2\<close>








subsection \<open>C3\<close>

text \<open>
  Claim C3: at the end of every run that reaches step 7 the IT watermark written to the
  store is the instant at which the run started (the clock reading taken before the
  fetches), not a later one; and a failure of either cursor write at step 7 is logged
  and does not make \<^verbatim>\<open>Sync\<close> return an error.

  The first part fails: step 7 reads the clock anew. In the run below, on an empty
  store, the clock shows \<open>1000 + n\<close> at tick \<open>n\<close>; the run starts at tick 0, samples the
  clock before the fetches at tick 2 and writes the reading of tick 8.
\<close>

theorem watermark_is_not_run_start:
  "Sync quiet_env the_sync empty_world =
     (None, empty_world\<lparr>last_sync := Some \<lparr>gcal_sync_token = Some ''tok-2'',
                                             yt_last_sync = Some (now quiet_env 8)\<rparr>,
                        ticks := 10\<rparr>)
 \<and> now quiet_env 8 \<noteq> now quiet_env (ticks empty_world)
 \<and> now quiet_env 8 \<noteq> now quiet_env 2"
  by (simp add: run_defs pass_defs store_defs client_defs world_defs time_defs example_defs)

text \<open>
  Claim C3 as amended: the IT watermark written at step 7 is the clock reading taken
  at step 7 itself, after the four passes and after the write of the token (at least
  five operations after the start of the run), not the instant at which the run
  started; when the write succeeds this reading is the stored watermark; a failure of
  either cursor write is logged and \<^verbatim>\<open>Sync\<close> returns no error for it.
\<close>

theorem Sync_commit_watermark:
  "fst (Sync_commit E tok newtok w) = None
 \<and> (\<not> watermark_write_fails E tok newtok w
      \<longrightarrow> map_option yt_last_sync (last_sync (snd (Sync_commit E tok newtok w)))
            = Some (Some (now E (commit_tick tok newtok w))))
 \<and> (watermark_write_fails E tok newtok w
      \<longrightarrow> last (logs (snd (Sync_commit E tok newtok w))) = ''Error setting YouTrack last sync time'')
 \<and> (token_write_fails E tok newtok w
      \<longrightarrow> ''Error setting Google Calendar sync token'' \<in> set (logs (snd (Sync_commit E tok newtok w))))
 \<and> (fst (Sync E S w0) = None
      \<longrightarrow> (\<exists>tok' newtok' w7. Sync E S w0 = Sync_commit E tok' newtok' w7
             \<and> ticks w0 + 5 \<le> commit_tick tok' newtok' w7))"
proof -
  have 1: "\<not> watermark_write_fails E tok newtok w
      \<longrightarrow> map_option yt_last_sync (last_sync (snd (Sync_commit E tok newtok w)))
            = Some (Some (now E (commit_tick tok newtok w)))"
    by (rule impI) (rule Sync_commit_stores)
  have 2: "watermark_write_fails E tok newtok w
      \<longrightarrow> last (logs (snd (Sync_commit E tok newtok w))) = ''Error setting YouTrack last sync time''"
    by (rule impI) (rule Sync_commit_logs_watermark_failure)
  have 3: "token_write_fails E tok newtok w
      \<longrightarrow> ''Error setting Google Calendar sync token'' \<in> set (logs (snd (Sync_commit E tok newtok w)))"
    by (rule impI) (rule Sync_commit_logs_token_failure)
  have 4: "fst (Sync E S w0) = None
      \<longrightarrow> (\<exists>tok' newtok' w7. Sync E S w0 = Sync_commit E tok' newtok' w7
             \<and> ticks w0 + 5 \<le> commit_tick tok' newtok' w7)"
  proof
    assume ok: "fst (Sync E S w0) = None"
    from Sync_cases[of E S w0] ok obtain tok' newtok' w7
      where "Sync E S w0 = Sync_commit E tok' newtok' w7" and "ticks w0 + 5 \<le> ticks w7"
      by auto
    moreover have "ticks w7 \<le> commit_tick tok' newtok' w7"
      by (simp add: commit_tick_def)
    ultimately show "\<exists>tok' newtok' w7. Sync E S w0 = Sync_commit E tok' newtok' w7
             \<and> ticks w0 + 5 \<le> commit_tick tok' newtok' w7"
      by (meson order_trans)
  qed
  show ?thesis
    apply (intro conjI)
        apply (rule fst_Sync_commit)
       apply (rule 1)
      apply (rule 2)
     apply (rule 3)
    apply (rule 4)
    done
qed

theorem Sync_commit_watermark_witness:
  "commit_tick ''tok-1'' ''tok-2'' bound_world = 1
 \<and> \<not> watermark_write_fails quiet_env ''tok-1'' ''tok-2'' bound_world
 \<and> map_option yt_last_sync (last_sync (snd (Sync_commit quiet_env ''tok-1'' ''tok-2'' bound_world)))
     = Some (Some (now quiet_env 1))
 \<and> watermark_write_fails (fault_env [0, 2]) ''tok-1'' ''tok-2'' bound_world
 \<and> last (logs (snd (Sync_commit (fault_env [0, 2]) ''tok-1'' ''tok-2'' bound_world)))
     = ''Error setting YouTrack last sync time''
 \<and> token_write_fails (fault_env [0, 2]) ''tok-1'' ''tok-2'' bound_world
 \<and> ''Error setting Google Calendar sync token''
     \<in> set (logs (snd (Sync_commit (fault_env [0, 2]) ''tok-1'' ''tok-2'' bound_world)))
 \<and> fst (Sync quiet_env the_sync bound_world) = None
 \<and> (\<exists>tok' newtok' w7. Sync quiet_env the_sync bound_world = Sync_commit quiet_env tok' newtok' w7
       \<and> ticks bound_world + 5 \<le> commit_tick tok' newtok' w7)"
proof -
  note A = Sync_commit_watermark[where E = quiet_env and tok = "''tok-1''" and newtok = "''tok-2''"
      and w = bound_world and S = the_sync and ?w0.0 = bound_world]
  note B = Sync_commit_watermark[where E = "fault_env [0, 2]" and tok = "''tok-1''"
      and newtok = "''tok-2''" and w = bound_world and S = the_sync and ?w0.0 = bound_world]
  have k: "commit_tick ''tok-1'' ''tok-2'' bound_world = 1"
    by (simp add: commit_tick_def token_written_def bound_world_def)
  have a1: "\<not> watermark_write_fails quiet_env ''tok-1'' ''tok-2'' bound_world"
    by (simp add: watermark_write_fails_def quiet_env_def)
  have a2: "fst (Sync quiet_env the_sync bound_world) = None"
    by (simp add: run_defs pass_defs store_defs client_defs world_defs time_defs example_defs)
  have b1: "watermark_write_fails (fault_env [0, 2]) ''tok-1'' ''tok-2'' bound_world"
    by (simp add: watermark_write_fails_def commit_tick_def token_written_def example_defs)
  have b2: "token_write_fails (fault_env [0, 2]) ''tok-1'' ''tok-2'' bound_world"
    by (simp add: token_write_fails_def token_written_def example_defs)
  have "map_option yt_last_sync (last_sync (snd (Sync_commit quiet_env ''tok-1'' ''tok-2'' bound_world)))
      = Some (Some (now quiet_env (commit_tick ''tok-1'' ''tok-2'' bound_world)))"
    by (rule mp[OF A[THEN conjunct2, THEN conjunct1] a1])
  then have c1: "map_option yt_last_sync
      (last_sync (snd (Sync_commit quiet_env ''tok-1'' ''tok-2'' bound_world))) = Some (Some (now quiet_env 1))"
    by (simp only: k)
  have c2: "last (logs (snd (Sync_commit (fault_env [0, 2]) ''tok-1'' ''tok-2'' bound_world)))
      = ''Error setting YouTrack last sync time''"
    by (rule mp[OF B[THEN conjunct2, THEN conjunct2, THEN conjunct1] b1])
  have c3: "''Error setting Google Calendar sync token''
      \<in> set (logs (snd (Sync_commit (fault_env [0, 2]) ''tok-1'' ''tok-2'' bound_world)))"
    by (rule mp[OF B[THEN conjunct2, THEN conjunct2, THEN conjunct2, THEN conjunct1] b2])
  have c4: "\<exists>tok' newtok' w7. Sync quiet_env the_sync bound_world = Sync_commit quiet_env tok' newtok' w7
       \<and> ticks bound_world + 5 \<le> commit_tick tok' newtok' w7"
    by (rule mp[OF A[THEN conjunct2, THEN conjunct2, THEN conjunct2, THEN conjunct2] a2])
  show ?thesis
    by (intro conjI) (rule k a1 a2 b1 b2 c1 c2 c3 c4)+
qed

subsection \<open>C4\<close>

text \<open>
  Claim C4: for an IT issue with a due date and no binding, the calendar event created
  is a whole-day event whose first day is the day of the due date and whose exclusive
  end is that day plus exactly one day, counting both the instants the reconciler
  passes and the formatting of \<^verbatim>\<open>CreateEvent\<close>.

  The reconciler passes the due instant and the instant one hour later;
  \<^verbatim>\<open>CreateEvent\<close> prints the day of the first and the day after the day of the second.
  For a due instant in the last hour of its day the end is therefore two days after
  the start. The issue below is due on 2023-11-15 at 23:30 UTC (day 19676): the event
  inserted runs from day 19676 to day 19678, exclusive.
\<close>

theorem late_due_date_spans_two_days:
  "created_spans 0
     (calls (snd (processYTissues quiet_env the_sync [the_issue 8 [late_due]] empty_world)))
   = [(19676, 19678)]"
  by (simp add: pass_defs store_defs client_defs world_defs time_defs example_defs Let_def
      CreateEvent_event_def Format_date_def AddDate_days_def)

text \<open>Before the last hour of the day the span is the single day of the due date.\<close>

lemma div_shift:
  fixes x :: int
  assumes "0 < D" "0 \<le> h" "x mod D + h < D"
  shows "(x + h) div D = x div D"
proof -
  have "x + h = (x mod D + h) + (x div D) * D"
    by simp
  then have "(x + h) div D = ((x mod D + h) + (x div D) * D) div D"
    by simp
  also have "\<dots> = (x mod D + h) div D + x div D"
    using assms(1) by (simp only: div_mult_self1)
  also have "(x mod D + h) div D = 0"
    using assms by (simp add: div_pos_pos_trivial)
  finally show ?thesis by simp
qed

lemma one_day_span_before_23h:
  assumes "time_of_day off d < 23 * Hour"
  shows "insert_End_Date (CreateEvent_event off summary description d (Add d Hour))
       = insert_Start_Date (CreateEvent_event off summary description d (Add d Hour)) + 1"
proof -
  have D: "(0::int) < 24 * Hour" and H: "(0::int) \<le> Hour"
    by (simp_all add: Hour_def)
  have "(d + off) mod (24 * Hour) + Hour < 24 * Hour"
    using assms by (simp add: time_of_day_def Hour_def)
  then have "(d + off + Hour) div (24 * Hour) = (d + off) div (24 * Hour)"
    using div_shift[OF D H] by blast
  moreover have "d + Hour + 1 * (24 * Hour) + off = (d + off + Hour) + 1 * (24 * Hour)"
    by simp
  moreover have "((d + off + Hour) + 1 * (24 * Hour)) div (24 * Hour) = (d + off + Hour) div (24 * Hour) + 1"
    using D by (simp only: div_mult_self1)
  ultimately have "(d + Hour + 1 * (24 * Hour) + off) div (24 * Hour) = (d + off) div (24 * Hour) + 1"
    by (simp only:)
  then show ?thesis
    by (simp only: CreateEvent_event_def Format_date_def AddDate_days_def Add_def
        insert_event.simps)
qed

subsection \<open>C5\<close>

text \<open>
  Claim C5: after a run each of the two cursor slots is unchanged or advanced; in
  particular writing the new CAL token never erases the stored IT watermark, and
  writing the IT watermark never erases the stored CAL token.

  \<^verbatim>\<open>SetGCalSyncToken\<close> replaces the whole row and leaves the watermark NULL, where
  \<^verbatim>\<open>SetYTLastSync\<close> updates its own column only. On a store that holds the token
  \<open>tok-1\<close> and the watermark 50, the write of \<open>tok-2\<close> leaves no watermark, and the next
  load of the watermark fails; a run in which the following write of the watermark
  fails (tick 8) ends with this state.
\<close>

theorem token_write_erases_watermark:
  "last_sync bound_world = Some \<lparr>gcal_sync_token = Some ''tok-1'', yt_last_sync = Some 50\<rparr>
 \<and> last_sync (snd (SetGCalSyncToken quiet_env ''tok-2'' bound_world))
     = Some \<lparr>gcal_sync_token = Some ''tok-2'', yt_last_sync = None\<rparr>
 \<and> fst (GetYTLastSync quiet_env (snd (SetGCalSyncToken quiet_env ''tok-2'' bound_world)))
     = Inl ErrScanNull
 \<and> last_sync (snd (Sync (fault_env [8]) the_sync bound_world))
     = Some \<lparr>gcal_sync_token = Some ''tok-2'', yt_last_sync = None\<rparr>"
  by (simp add: run_defs pass_defs store_defs client_defs world_defs time_defs example_defs)

subsection \<open>C6\<close>

text \<open>
  Claim C6: for a binding whose stored CAL stamp is \<open>T\<close>, observing the same CAL event
  again with update instant exactly \<open>T\<close> produces no IT write and leaves the binding
  unchanged (the comparison is strict); the same holds of an IT issue observed again
  with update instant equal to the stored IT stamp.

  Proved for any environment: no remote call is recorded and the table of bindings is
  the same after the pass over that one item.
\<close>

theorem echo_is_ignored:
  "(find (\<lambda>r. GCalID r = Some (Event_ID event)) (sync_items w) = Some b
      \<and> GCalUpdatedAt b = Some T \<and> Event_Updated event = T
    \<longrightarrow> sync_items (snd (processGCalEvents E S [event] w)) = sync_items w
       \<and> calls (snd (processGCalEvents E S [event] w)) = calls w)
 \<and> (find (\<lambda>r. YTID r = Some (Issue_ID issue)) (sync_items w) = Some b'
      \<and> YTUpdatedAt b' = Some T' \<and> UnixMilli (Issue_Updated issue) = T'
    \<longrightarrow> sync_items (snd (processYTissues E S [issue] w)) = sync_items w
       \<and> calls (snd (processYTissues E S [issue] w)) = calls w)"
  by (simp add: processGCalEvents_def processGCalEvent_def GetSyncItemByGCalID_def
      processYTissues_def processYTissue_def GetSyncItemByYTID_def
      After_def NullTime_Time_def Let_def)

theorem echo_is_ignored_witness:
  "find (\<lambda>r. GCalID r = Some (Event_ID (the_event ''confirmed'' 100))) (sync_items bound_world)
     = Some the_binding
 \<and> GCalUpdatedAt the_binding = Some (Event_Updated (the_event ''confirmed'' 100))
 \<and> sync_items (snd (processGCalEvents quiet_env the_sync [the_event ''confirmed'' 100] bound_world))
     = sync_items bound_world
 \<and> calls (snd (processGCalEvents quiet_env the_sync [the_event ''confirmed'' 100] bound_world))
     = calls bound_world
 \<and> find (\<lambda>r. YTID r = Some (Issue_ID (the_issue 7 [late_due]))) (sync_items bound_world)
     = Some the_binding
 \<and> YTUpdatedAt the_binding = Some (UnixMilli (Issue_Updated (the_issue 7 [late_due])))
 \<and> sync_items (snd (processYTissues quiet_env the_sync [the_issue 7 [late_due]] bound_world))
     = sync_items bound_world
 \<and> calls (snd (processYTissues quiet_env the_sync [the_issue 7 [late_due]] bound_world))
     = calls bound_world"
proof -
  note T = echo_is_ignored[where event = "the_event ''confirmed'' 100" and w = bound_world
      and b = the_binding and T = 100 and issue = "the_issue 7 [late_due]" and b' = the_binding
      and T' = "UnixMilli 7" and E = quiet_env and S = the_sync]
  have h1: "find (\<lambda>r. GCalID r = Some (Event_ID (the_event ''confirmed'' 100))) (sync_items bound_world)
      = Some the_binding"
    by (simp add: example_defs)
  have h2: "GCalUpdatedAt the_binding = Some 100" "Event_Updated (the_event ''confirmed'' 100) = 100"
    by (simp_all add: example_defs)
  have h3: "find (\<lambda>r. YTID r = Some (Issue_ID (the_issue 7 [late_due]))) (sync_items bound_world)
      = Some the_binding"
    by (simp add: example_defs)
  have h4: "YTUpdatedAt the_binding = Some (UnixMilli 7)"
    "UnixMilli (Issue_Updated (the_issue 7 [late_due])) = UnixMilli 7"
    by (simp_all add: example_defs)
  from T h1 h2 have c1:
    "sync_items (snd (processGCalEvents quiet_env the_sync [the_event ''confirmed'' 100] bound_world))
      = sync_items bound_world
   \<and> calls (snd (processGCalEvents quiet_env the_sync [the_event ''confirmed'' 100] bound_world))
      = calls bound_world"
    by blast
  from T h3 h4 have c2:
    "sync_items (snd (processYTissues quiet_env the_sync [the_issue 7 [late_due]] bound_world))
      = sync_items bound_world
   \<and> calls (snd (processYTissues quiet_env the_sync [the_issue 7 [late_due]] bound_world))
      = calls bound_world"
    by blast
  from h1 h2 h3 h4 c1 c2 show ?thesis by simp
qed

subsection \<open>C7\<close>

text \<open>
  Claim C7: a call of the IT adapter's \<^verbatim>\<open>UpdateIssue\<close> with no due date clears the
  due date of the remote issue (the request conveys the removal of the custom field
  rather than leaving it unmentioned); and \<^verbatim>\<open>UpdateIssue\<close> returns \<open>ErrNotFound\<close>
  exactly when the server answers HTTP 404.

  The caller in \<^verbatim>\<open>handleDeletions\<close> passes \<^verbatim>\<open>nil\<close> with the comment "Remove due
  date", but the adapter adds the entry \<^verbatim>\<open>customFields\<close> to the request only when a
  due date is given: without one the body names the summary and the description and
  nothing else, so the request leaves the due date unmentioned.
\<close>

theorem UpdateIssue_absent_due_unmentioned:
  "req_Body (UpdateIssue_request c issueID summary description None)
     = JObject [(''summary'', JString summary), (''description'', JString description)]
 \<and> map_of (UpdateIssue_updates summary description None) ''customFields'' = None"
  by (simp add: UpdateIssue_request_def UpdateIssue_updates_def)

text \<open>The second half of the claim holds of the code.\<close>

lemma UpdateIssue_NotFound_iff:
  "Client_UpdateIssue H c issueID summary description dueDate = Some ErrNotFound
     \<longleftrightarrow> NewRequest_ok H (req_URL (UpdateIssue_request c issueID summary description dueDate))
        \<and> (\<exists>resp. HTTPClient_Do H (UpdateIssue_request c issueID summary description dueDate) = Inr resp
                \<and> StatusCode resp = 404)"
  by (auto simp add: Client_UpdateIssue_def split: sum.splits)

subsection \<open>C8\<close>



subsection \<open>C9\<close>

text \<open>
  Claim C9: the store's update fails with NotFound when the local id is not in the
  store, and a partial update preserves the stored values of the fields the caller
  did not set.

  Neither holds of \<^verbatim>\<open>UpdateSyncItem\<close>: it does not look at the number of rows affected,
  and its statement sets all four columns. On the store with the one binding
  \<open>the_binding\<close>, the update of the unknown id 7 returns no error, and the update of id 1
  by an item that carries the CAL side only stores NULL for the IT id and the IT stamp.
\<close>

theorem UpdateSyncItem_no_NotFound:
  "map ID (sync_items bound_world) = [1]
 \<and> fst (UpdateSyncItem quiet_env
          \<lparr>ID = 7, GCalID = Some ''EV-7'', YTID = None, GCalUpdatedAt = None, YTUpdatedAt = None\<rparr>
          bound_world) = None
 \<and> YTID the_binding = Some ''YT-1'' \<and> YTUpdatedAt the_binding = Some (UnixMilli 7)
 \<and> sync_items (snd (UpdateSyncItem quiet_env
          \<lparr>ID = 1, GCalID = Some ''EV-1'', YTID = None, GCalUpdatedAt = Some 300, YTUpdatedAt = None\<rparr>
          bound_world))
     = [\<lparr>ID = 1, GCalID = Some ''EV-1'', YTID = None, GCalUpdatedAt = Some 300, YTUpdatedAt = None\<rparr>]"
  by (simp add: store_defs world_defs example_defs)

text \<open>
  Claim C9 as amended: the store's update never fails with NotFound; for a local id
  that is not in the store it returns no error (unless the database itself fails) and
  leaves the table as it is; and an update that succeeds writes all four data fields
  of the row from the item given, so that the row is the item: a field the caller did
  not set is stored as NULL.
\<close>

theorem UpdateSyncItem_overwrites:
  "fst (UpdateSyncItem E item w) \<noteq> Some ErrNotFound
 \<and> (\<not> db_fault E (ticks w) \<and> \<not> list_ex (\<lambda>r. ID r = ID item) (sync_items w)
      \<longrightarrow> fst (UpdateSyncItem E item w) = None
        \<and> sync_items (snd (UpdateSyncItem E item w)) = sync_items w)
 \<and> (fst (UpdateSyncItem E item w) = None
      \<longrightarrow> sync_items (snd (UpdateSyncItem E item w))
          = map (\<lambda>r. if ID r = ID item then item else r) (sync_items w))"
  by (simp add: UpdateSyncItem_def map_replace_absent)

theorem UpdateSyncItem_overwrites_witness:
  "\<not> db_fault quiet_env (ticks bound_world)
 \<and> \<not> list_ex (\<lambda>r. ID r = ID (the_binding\<lparr>ID := 7\<rparr>)) (sync_items bound_world)
 \<and> fst (UpdateSyncItem quiet_env (the_binding\<lparr>ID := 7\<rparr>) bound_world) = None
 \<and> sync_items (snd (UpdateSyncItem quiet_env (the_binding\<lparr>ID := 7\<rparr>) bound_world))
     = sync_items bound_world
 \<and> fst (UpdateSyncItem quiet_env (the_binding\<lparr>YTID := None\<rparr>) bound_world) = None
 \<and> sync_items (snd (UpdateSyncItem quiet_env (the_binding\<lparr>YTID := None\<rparr>) bound_world))
     = [the_binding\<lparr>YTID := None\<rparr>]"
proof -
  note A = UpdateSyncItem_overwrites[where E = quiet_env and item = "the_binding\<lparr>ID := 7\<rparr>"
      and w = bound_world]
  note B = UpdateSyncItem_overwrites[where E = quiet_env and item = "the_binding\<lparr>YTID := None\<rparr>"
      and w = bound_world]
  have h1: "\<not> db_fault quiet_env (ticks bound_world)"
    by (simp add: quiet_env_def)
  have h2: "\<not> list_ex (\<lambda>r. ID r = ID (the_binding\<lparr>ID := 7\<rparr>)) (sync_items bound_world)"
    by (simp add: example_defs)
  have h3: "fst (UpdateSyncItem quiet_env (the_binding\<lparr>YTID := None\<rparr>) bound_world) = None"
    by (simp add: store_defs example_defs)
  from A h1 h2 have c1: "fst (UpdateSyncItem quiet_env (the_binding\<lparr>ID := 7\<rparr>) bound_world) = None
      \<and> sync_items (snd (UpdateSyncItem quiet_env (the_binding\<lparr>ID := 7\<rparr>) bound_world))
          = sync_items bound_world"
    by blast
  from B h3 have "sync_items (snd (UpdateSyncItem quiet_env (the_binding\<lparr>YTID := None\<rparr>) bound_world))
      = map (\<lambda>r. if ID r = ID (the_binding\<lparr>YTID := None\<rparr>) then the_binding\<lparr>YTID := None\<rparr> else r)
          (sync_items bound_world)"
    by blast
  then have c2: "sync_items (snd (UpdateSyncItem quiet_env (the_binding\<lparr>YTID := None\<rparr>) bound_world))
      = [the_binding\<lparr>YTID := None\<rparr>]"
    by (simp add: bound_world_def)
  from h1 h2 h3 c1 c2 show ?thesis by blast
qed

subsection \<open>C10\<close>

text \<open>
  Claim C10: every binding created by the reconciler during a run has both its CAL id
  and its IT id populated; the engine itself never produces a half-bound row.

  Proved of a whole run, in any environment and from any store: a row of the store
  after \<^verbatim>\<open>Sync\<close> that lacks one of its ids is a row of a binding that was in the store
  before the run, with the same local id and the same two remote ids.
\<close>

theorem created_bindings_fully_bound:
  "\<forall>r \<in> set (sync_items (snd (Sync E S w))).
      half_bound r \<longrightarrow> (\<exists>r0 \<in> set (sync_items w). same_binding r r0)"
proof -
  have "derives_from (sync_items w) (snd (Sync E S w))"
    by (rule Sync_preserves[where P = "derives_from (sync_items w)"])
      (simp_all add: derives_from_self derives_from_Create derives_from_Delete
        derives_from_Update[where item = "b\<lparr>GCalUpdatedAt := ts\<rparr>" and b = b for b ts]
        derives_from_Update[where item = "b\<lparr>YTUpdatedAt := ts\<rparr>" and b = b for b ts]
        same_binding_def)
  then show ?thesis
    by (simp add: derives_from_def list_all_iff list_ex_iff)
qed

theorem created_bindings_fully_bound_witness:
  "sync_items empty_world = []
 \<and> length (sync_items (snd (Sync (batch_env (the_event ''confirmed'' 200)) the_sync empty_world))) = 1
 \<and> list_all (\<lambda>r. \<not> half_bound r)
     (sync_items (snd (Sync (batch_env (the_event ''confirmed'' 200)) the_sync empty_world)))"
proof -
  have h1: "sync_items empty_world = []"
    by (simp add: empty_world_def)
  have h2: "length (sync_items (snd (Sync (batch_env (the_event ''confirmed'' 200)) the_sync empty_world))) = 1"
    by (simp add: run_defs pass_defs store_defs client_defs world_defs time_defs example_defs)
  from created_bindings_fully_bound[of "batch_env (the_event ''confirmed'' 200)" the_sync empty_world] h1
  have "list_all (\<lambda>r. \<not> half_bound r)
      (sync_items (snd (Sync (batch_env (the_event ''confirmed'' 200)) the_sync empty_world)))"
    by (simp add: list_all_iff)
  with h1 h2 show ?thesis by simp
qed

end
